theory Spec2Isabelle
  imports Complex_Main "HOL-Library.AList"
begin

section \<open>Python values and exceptions\<close>

text \<open>
  The values the program handles are the values of Python's \<open>json\<close> module: \<open>None\<close>,
  booleans, integers, floats, strings, lists and dicts with string keys. A dict is an
  association list in insertion order, read with \<open>map_of\<close> and written with
  \<open>AList.update\<close> (an existing key keeps its place, a new key goes to the end, as in
  Python).

  The program never computes with a float: it compares it and formats it. A finite
  float is its exact value together with its \<open>repr\<close>; the other floats are the two
  infinities and \<open>nan\<close>.

  Strings are byte strings: the UTF-8 encoding of their code points. A string of a JSON
  text can hold an unpaired surrogate (written \<open>\ud800\<close> there), which UTF-8 proper
  excludes; it is kept in the same three-byte form, \<open>ED A0..BF xx\<close>.
\<close>

datatype pyfloat = Finite rat string | PosInf | NegInf | NaN

datatype json =
    JNull
  | JBool bool
  | JInt int
  | JFloat pyfloat
  | JStr string
  | JArr "json list"
  | JObj "(string \<times> json) list"

type_synonym dict = "(string \<times> json) list"

text \<open>
  Every exception the code can raise is a value; \<open>KeyError\<close> carries the missing
  key. \<open>External\<close> is a failure of a collaborator outside the repository (the
  identity provider, the Sheets client).
\<close>

datatype error =
    KeyError json
  | IndexError string
  | AttributeError string
  | TypeError string
  | ValueError string
  | JSONDecodeError
  | UnicodeDecodeError
  | UnicodeEncodeError
  | RecursionError
  | FileExistsError
  | External string

text \<open>\<open>obj.get(key, default)\<close>: only a dict has the method.\<close>

fun py_get :: "json \<Rightarrow> string \<Rightarrow> json \<Rightarrow> error + json" where
  "py_get (JObj kvs) k d = Inr (case map_of kvs k of None \<Rightarrow> d | Some v \<Rightarrow> v)"
| "py_get _ k d = Inl (AttributeError ''get'')"

text \<open>
  \<open>obj[key]\<close> with a string key: a dict raises \<open>KeyError\<close> on a missing key, a list
  or a string wants an integer index, everything else is not subscriptable.
\<close>

fun py_getitem :: "json \<Rightarrow> string \<Rightarrow> error + json" where
  "py_getitem (JObj kvs) k = (case map_of kvs k of None \<Rightarrow> Inl (KeyError (JStr k)) | Some v \<Rightarrow> Inr v)"
| "py_getitem (JArr _) k = Inl (TypeError ''list indices must be integers or slices, not str'')"
| "py_getitem (JStr _) k = Inl (TypeError ''string indices must be integers'')"
| "py_getitem _ k = Inl (TypeError ''object is not subscriptable'')"

subsection \<open>Equality\<close>

text \<open>
  \<open>a == b\<close> as containment and the comparison of containers apply it, that is after
  the test \<open>a is b\<close>. Booleans, integers and floats compare by their exact values
  (\<open>True == 1 == 1.0\<close>). Every \<open>nan\<close> that \<open>json.loads\<close> returns is the one object
  \<open>json.decoder.NaN\<close>, so there \<open>nan\<close> matches \<open>nan\<close>. Lists are equal when they
  are so element by element, dicts when they have the same keys with equal values,
  whatever the order.
\<close>

fun float_eq :: "pyfloat \<Rightarrow> pyfloat \<Rightarrow> bool" where
  "float_eq (Finite v _) (Finite w _) = (v = w)"
| "float_eq PosInf PosInf = True"
| "float_eq NegInf NegInf = True"
| "float_eq NaN NaN = True"
| "float_eq _ _ = False"

fun number :: "json \<Rightarrow> pyfloat option" where
  "number (JBool b) = Some (Finite (if b then 1 else 0) [])"
| "number (JInt i) = Some (Finite (of_int i) [])"
| "number (JFloat f) = Some f"
| "number _ = None"

fun py_eq :: "json \<Rightarrow> json \<Rightarrow> bool"
  and py_eq_list :: "json list \<Rightarrow> json list \<Rightarrow> bool"
  and py_eq_items :: "(string \<times> json) list \<Rightarrow> (string \<times> json) list \<Rightarrow> bool" where
  "py_eq JNull y = (y = JNull)"
| "py_eq (JBool b) y =
     (case number y of None \<Rightarrow> False | Some g \<Rightarrow> float_eq (Finite (if b then 1 else 0) []) g)"
| "py_eq (JInt i) y =
     (case number y of None \<Rightarrow> False | Some g \<Rightarrow> float_eq (Finite (of_int i) []) g)"
| "py_eq (JFloat f) y = (case number y of None \<Rightarrow> False | Some g \<Rightarrow> float_eq f g)"
| "py_eq (JStr s) y = (y = JStr s)"
| "py_eq (JArr xs) y = (case y of JArr ys \<Rightarrow> py_eq_list xs ys | _ \<Rightarrow> False)"
| "py_eq (JObj a) y =
     (case y of JObj b \<Rightarrow> length a = length b \<and> py_eq_items a b | _ \<Rightarrow> False)"
| "py_eq_list [] ys = (ys = [])"
| "py_eq_list (x # xs) ys =
     (case ys of [] \<Rightarrow> False | y # ys' \<Rightarrow> py_eq x y \<and> py_eq_list xs ys')"
| "py_eq_items [] b = True"
| "py_eq_items (kv # a) b =
     ((case map_of b (fst kv) of None \<Rightarrow> False | Some w \<Rightarrow> py_eq (snd kv) w)
      \<and> py_eq_items a b)"

subsection \<open>Code points\<close>

text \<open>The bytes of a string, cut into the encodings of its code points.\<close>

definition utf8_len :: "char \<Rightarrow> nat" where
  "utf8_len c =
     (let b = of_char c :: nat in
      if b < 0xC0 then 1 else if b < 0xE0 then 2 else if b < 0xF0 then 3
      else if b < 0xF8 then 4 else 1)"

fun utf8_chars :: "string \<Rightarrow> string list" where
  "utf8_chars [] = []"
| "utf8_chars (c # cs) =
     (c # take (utf8_len c - 1) cs) # utf8_chars (drop (utf8_len c - 1) cs)"

fun continuation :: "nat \<Rightarrow> string \<Rightarrow> nat" where
  "continuation acc [] = acc"
| "continuation acc (c # cs) = continuation (acc * 64 + of_char c mod 64) cs"

fun codepoint :: "string \<Rightarrow> nat" where
  "codepoint [] = 0"
| "codepoint (c # cs) =
     (let b = of_char c :: nat in
      if cs = [] then b
      else if b < 0xE0 then continuation (b mod 32) cs
      else if b < 0xF0 then continuation (b mod 16) cs
      else continuation (b mod 8) cs)"

text \<open>An unpaired surrogate is a code point from \<open>D800\<close> to \<open>DFFF\<close>.\<close>

definition has_surrogate :: "string \<Rightarrow> bool" where
  "has_surrogate s = list_ex (\<lambda>ch. 0xD800 \<le> codepoint ch \<and> codepoint ch \<le> 0xDFFF) (utf8_chars s)"

subsection \<open>Containment and subscription\<close>

text \<open>\<open>u in s\<close> for two strings: \<open>u\<close> occurs in \<open>s\<close>.\<close>

fun substring :: "string \<Rightarrow> string \<Rightarrow> bool" where
  "substring u [] = (u = [])"
| "substring u (c # s) = (take (length u) (c # s) = u \<or> substring u s)"

text \<open>
  \<open>item in container\<close>. A dict hashes the item first, and a list or a dict is
  unhashable; its keys are strings, which no other value equals. A list compares its
  elements with the item. A string wants a string. Nothing else is iterable.
\<close>

fun py_in :: "json \<Rightarrow> json \<Rightarrow> error + bool" where
  "py_in (JArr _) (JObj d) = Inl (TypeError ''unhashable type: list'')"
| "py_in (JObj _) (JObj d) = Inl (TypeError ''unhashable type: dict'')"
| "py_in (JStr s) (JObj d) = Inr (map_of d s \<noteq> None)"
| "py_in _ (JObj d) = Inr False"
| "py_in item (JArr xs) = Inr (list_ex (\<lambda>x. py_eq x item) xs)"
| "py_in (JStr u) (JStr s) = Inr (substring u s)"
| "py_in _ (JStr s) = Inl (TypeError ''in <string> requires string as left operand'')"
| "py_in item _ = Inl (TypeError ''argument is not iterable'')"

text \<open>\<open>xs[i]\<close> for a list and an integer: a negative index counts from the end.\<close>

definition list_index :: "'a list \<Rightarrow> int \<Rightarrow> error + 'a" where
  "list_index xs i =
     (if 0 \<le> i \<and> i < int (length xs) then Inr (xs ! nat i)
      else if i < 0 \<and> - i \<le> int (length xs) then Inr (xs ! nat (int (length xs) + i))
      else Inl (IndexError ''index out of range''))"

text \<open>
  \<open>container[key]\<close> for any key. A boolean is an integer (\<open>False\<close> is 0, \<open>True\<close> is
  1). A string gives the code point at the index, as a string.
\<close>

fun py_subscript :: "json \<Rightarrow> json \<Rightarrow> error + json" where
  "py_subscript (JObj d) (JStr s) = py_getitem (JObj d) s"
| "py_subscript (JObj d) (JArr _) = Inl (TypeError ''unhashable type: list'')"
| "py_subscript (JObj d) (JObj _) = Inl (TypeError ''unhashable type: dict'')"
| "py_subscript (JObj d) k = Inl (KeyError k)"
| "py_subscript (JArr xs) (JInt i) = list_index xs i"
| "py_subscript (JArr xs) (JBool b) = list_index xs (if b then 1 else 0)"
| "py_subscript (JArr xs) k = Inl (TypeError ''list indices must be integers or slices'')"
| "py_subscript (JStr s) (JInt i) = map_sum id JStr (list_index (utf8_chars s) i)"
| "py_subscript (JStr s) (JBool b) =
     map_sum id JStr (list_index (utf8_chars s) (if b then 1 else 0))"
| "py_subscript (JStr s) k = Inl (TypeError ''string indices must be integers'')"
| "py_subscript _ k = Inl (TypeError ''object is not subscriptable'')"

subsection \<open>Formatting\<close>

text \<open>Decimal digits of a natural number, and \<open>str\<close> of an integer.\<close>

fun str_nat :: "nat \<Rightarrow> string" where
  "str_nat n =
     (if n < 10 then [char_of (48 + n)]
      else str_nat (n div 10) @ [char_of (48 + n mod 10)])"

definition str_int :: "int \<Rightarrow> string" where
  "str_int i = (if i < 0 then CHR ''-'' # str_nat (nat (- i)) else str_nat (nat i))"

fun float_repr :: "pyfloat \<Rightarrow> string" where
  "float_repr (Finite v r) = r"
| "float_repr PosInf = ''inf''"
| "float_repr NegInf = ''-inf''"
| "float_repr NaN = ''nan''"

text \<open>A number in \<open>k\<close> lower-case hexadecimal digits.\<close>

definition hex_digit :: "nat \<Rightarrow> char" where
  "hex_digit n = (if n < 10 then char_of (48 + n) else char_of (87 + n))"

fun hex :: "nat \<Rightarrow> nat \<Rightarrow> string" where
  "hex 0 n = []"
| "hex (Suc k) n = hex k (n div 16) @ [hex_digit (n mod 16)]"

text \<open>
  \<open>repr\<close> of a string. The quote is the apostrophe, unless the string has one and no
  double quote. The quote and the backslash are escaped, tab, newline and return are
  written \<open>\t\<close>, \<open>\n\<close>, \<open>\r\<close>, the other control characters and, beyond ASCII, the
  code points that are not printable are written in hexadecimal. Which code points are
  printable is the Unicode table of the interpreter, the parameter \<open>printable\<close>.
\<close>

definition repr_char :: "(nat \<Rightarrow> bool) \<Rightarrow> char \<Rightarrow> string \<Rightarrow> string" where
  "repr_char printable quote ch =
     (let cp = codepoint ch in
      if ch = [quote] \<or> ch = [CHR 0x5C] then CHR 0x5C # ch
      else if cp = 9 then [CHR 0x5C, CHR ''t'']
      else if cp = 10 then [CHR 0x5C, CHR ''n'']
      else if cp = 13 then [CHR 0x5C, CHR ''r'']
      else if cp < 32 \<or> cp = 127 then [CHR 0x5C, CHR ''x''] @ hex 2 cp
      else if cp < 127 then ch
      else if printable cp then ch
      else if cp \<le> 0xFF then [CHR 0x5C, CHR ''x''] @ hex 2 cp
      else if cp \<le> 0xFFFF then [CHR 0x5C, CHR ''u''] @ hex 4 cp
      else [CHR 0x5C, CHR ''U''] @ hex 8 cp)"

definition repr_str :: "(nat \<Rightarrow> bool) \<Rightarrow> string \<Rightarrow> string" where
  "repr_str printable s =
     (let quote = (if CHR 0x27 \<in> set s \<and> CHR 0x22 \<notin> set s then CHR 0x22 else CHR 0x27)
      in quote # concat (map (repr_char printable quote) (utf8_chars s)) @ [quote])"

fun comma_join :: "string list \<Rightarrow> string" where
  "comma_join [] = []"
| "comma_join [x] = x"
| "comma_join (x # y # ys) = x @ '', '' @ comma_join (y # ys)"

text \<open>\<open>repr\<close> of a value, and of the elements of a list and the items of a dict.\<close>

fun py_repr :: "(nat \<Rightarrow> bool) \<Rightarrow> json \<Rightarrow> string"
  and py_repr_list :: "(nat \<Rightarrow> bool) \<Rightarrow> json list \<Rightarrow> string list"
  and py_repr_items :: "(nat \<Rightarrow> bool) \<Rightarrow> (string \<times> json) list \<Rightarrow> string list" where
  "py_repr printable JNull = ''None''"
| "py_repr printable (JBool b) = (if b then ''True'' else ''False'')"
| "py_repr printable (JInt i) = str_int i"
| "py_repr printable (JFloat f) = float_repr f"
| "py_repr printable (JStr s) = repr_str printable s"
| "py_repr printable (JArr xs) = ''['' @ comma_join (py_repr_list printable xs) @ '']''"
| "py_repr printable (JObj kvs) = ''{'' @ comma_join (py_repr_items printable kvs) @ ''}''"
| "py_repr_list printable [] = []"
| "py_repr_list printable (x # xs) = py_repr printable x # py_repr_list printable xs"
| "py_repr_items printable [] = []"
| "py_repr_items printable (kv # kvs) =
     (repr_str printable (fst kv) @ '': '' @ py_repr printable (snd kv))
     # py_repr_items printable kvs"

text \<open>\<open>str(x)\<close>, as an f-string formats \<open>{x}\<close>: a string is itself.\<close>

fun py_str :: "(nat \<Rightarrow> bool) \<Rightarrow> json \<Rightarrow> string" where
  "py_str printable (JStr s) = s"
| "py_str printable x = py_repr printable x"

text \<open>\<open>str\<close> of an optional string read from the environment (\<open>os.environ.get\<close>).\<close>

fun str_opt :: "string option \<Rightarrow> string" where
  "str_opt None = ''None''"
| "str_opt (Some s) = s"

fun json_opt :: "string option \<Rightarrow> json" where
  "json_opt None = JNull"
| "json_opt (Some s) = JStr s"

text \<open>\<open>d[key] = value\<close> with a string key.\<close>

fun py_setitem :: "json \<Rightarrow> string \<Rightarrow> json \<Rightarrow> error + json" where
  "py_setitem (JObj d) k v = Inr (JObj (AList.update k v d))"
| "py_setitem (JArr _) k v = Inl (TypeError ''list indices must be integers or slices, not str'')"
| "py_setitem _ k v = Inl (TypeError ''object does not support item assignment'')"

section \<open>The credential store (tokens.py)\<close>

text \<open>
  \<open>json.loads\<close> and \<open>json.dump\<close> are library code. A text is represented by what
  \<open>json.loads\<close> makes of it: \<open>Json_text v\<close> is a text that parses to the value \<open>v\<close>,
  any JSON value (the text \<open>json.dump\<close> writes for \<open>v\<close>); \<open>Not_json\<close> is a text on
  which it raises \<open>JSONDecodeError\<close> (the empty text among them); \<open>Loads_raises e\<close> is
  a text on which it raises another exception \<open>e\<close> (\<open>RecursionError\<close> when the
  nesting is too deep, \<open>ValueError\<close> on an integer literal beyond the digit limit). A
  file holds bytes that decode to a text, or that are not UTF-8. The file system is the
  working directory: a map from file names to files.
\<close>

datatype file_text = Json_text json | Not_json | Loads_raises error

datatype file_bytes = Utf8 file_text | Not_utf8

type_synonym fs = "string \<Rightarrow> file_bytes option"

definition TOKEN_FILE :: string where
  "TOKEN_FILE = ''tokens.json''"

fun read_text :: "file_bytes \<Rightarrow> error + file_text" where
  "read_text (Utf8 t) = Inr t"
| "read_text Not_utf8 = Inl UnicodeDecodeError"

fun json_loads :: "file_text \<Rightarrow> error + json" where
  "json_loads (Json_text v) = Inr v"
| "json_loads Not_json = Inl JSONDecodeError"
| "json_loads (Loads_raises e) = Inl e"

definition load_tokens :: "fs \<Rightarrow> error + json" where
  "load_tokens files =
     (case files TOKEN_FILE of
        None \<Rightarrow> Inr (JObj [])
      | Some b \<Rightarrow>
          (case read_text b of
             Inl e \<Rightarrow> Inl e
           | Inr t \<Rightarrow>
               (case json_loads t of
                  Inl JSONDecodeError \<Rightarrow> Inr (JObj [])
                | Inl e \<Rightarrow> Inl e
                | Inr v \<Rightarrow> Inr v)))"

text \<open>
  \<open>NamedTemporaryFile(dir=TOKEN_FILE.parent, delete=False)\<close> creates an empty file
  \<open>tmp\<close> followed by random characters in the working directory, exclusively: a
  candidate name that exists is skipped, and \<open>FileExistsError\<close> is raised when the
  candidates run out. \<open>rnds\<close> are the random suffixes drawn.
\<close>

definition NamedTemporaryFile :: "fs \<Rightarrow> string list \<Rightarrow> error + string" where
  "NamedTemporaryFile files rnds =
     (case find (\<lambda>r. files (''tmp'' @ r) = None) rnds of
        None \<Rightarrow> Inl FileExistsError
      | Some r \<Rightarrow> Inr (''tmp'' @ r))"

text \<open>\<open>Path(src).replace(dst)\<close>: an atomic rename over the destination.\<close>

definition replace :: "string \<Rightarrow> string \<Rightarrow> fs \<Rightarrow> fs" where
  "replace src dst files = (files(src := None))(dst := files src)"

text \<open>
  The successive states of the disk during \<open>save_tokens\<close>. \<open>mkdir\<close> of the working
  directory with \<open>exist_ok\<close> changes nothing. Then the temporary file is created empty,
  \<open>json.dump\<close> writes it piece by piece (\<open>partial\<close> are the contents of the temporary
  file seen on disk in between), the \<open>with\<close> block closes it complete, and the rename
  puts it in place. An interrupted save stops in one of the states before the last.
\<close>

definition save_tokens_states :: "string list \<Rightarrow> file_bytes list \<Rightarrow> json \<Rightarrow> fs \<Rightarrow> fs list" where
  "save_tokens_states rnds partial tokens files =
     (case NamedTemporaryFile files rnds of
        Inl e \<Rightarrow> [files]
      | Inr temp_name \<Rightarrow>
          [files, files(temp_name \<mapsto> Utf8 Not_json)]
          @ map (\<lambda>p. files(temp_name \<mapsto> p)) partial
          @ [files(temp_name \<mapsto> Utf8 (Json_text tokens)),
             replace temp_name TOKEN_FILE (files(temp_name \<mapsto> Utf8 (Json_text tokens)))])"

text \<open>
  The complete \<open>save_tokens\<close>: its outcome and the disk it leaves. \<open>json.dump\<close> is
  taken to write every value; the one it cannot write to a UTF-8 file, a string with an
  unpaired surrogate, is in the mapping only when the token file or the provider put it
  there.
\<close>

definition save_tokens :: "string list \<Rightarrow> json \<Rightarrow> fs \<Rightarrow> (error + unit) \<times> fs" where
  "save_tokens rnds tokens files =
     (case NamedTemporaryFile files rnds of
        Inl e \<Rightarrow> (Inl e, files)
      | Inr temp_name \<Rightarrow>
          (Inr (), replace temp_name TOKEN_FILE (files(temp_name \<mapsto> Utf8 (Json_text tokens)))))"

section \<open>Configuration and helpers (main.py)\<close>

text \<open>The three values read from the environment at start-up; each may be unset.\<close>

record config =
  GOOGLE_CLIENT_ID :: "string option"
  GOOGLE_CLIENT_SECRET :: "string option"
  BASE_URL :: "string option"

text \<open>
  What the interpreter and the web framework supply: the Unicode table behind
  \<open>str.isprintable\<close>, by code point, and \<open>JSONResponse.render\<close>, which is
  \<open>json.dumps(content, allow_nan=False, ...)\<close> followed by the encoding to UTF-8 and
  raises where either does (\<open>None\<close>: it returns the body).
\<close>

record runtime =
  isprintable :: "nat \<Rightarrow> bool"
  render :: "json \<Rightarrow> error option"

definition SCOPES :: "string list" where
  "SCOPES = [''https://www.googleapis.com/auth/spreadsheets'']"

definition get_user_id :: "json \<Rightarrow> error + json" where
  "get_user_id payload =
     (case py_get payload ''meta'' (JObj []) of
        Inl e \<Rightarrow> Inl e
      | Inr meta \<Rightarrow> py_get meta ''user_id'' (JStr ''default''))"

definition auth_error :: "runtime \<Rightarrow> config \<Rightarrow> json \<Rightarrow> json \<Rightarrow> json" where
  "auth_error rt cfg id' user_id =
     JObj [(''jsonrpc'', JStr ''2.0''),
           (''id'', id'),
           (''error'', JObj [
              (''code'', JInt 401),
              (''message'', JStr (''Google Sheets not connected for user '' @ [CHR 0x27]
                 @ py_str (isprintable rt) user_id @ [CHR 0x27] @ ''. Visit '' @ str_opt (BASE_URL cfg)
                 @ ''/auth/google?user_id='' @ py_str (isprintable rt) user_id))])]"

section \<open>The authorization callback\<close>

text \<open>
  \<open>flow.credentials\<close> after \<open>flow.fetch_token\<close>: the access token and the refresh
  token of the provider's response, each a string or \<open>None\<close>.
\<close>

record flow_credentials =
  flow_token :: "string option"
  flow_refresh_token :: "string option"

text \<open>\<open>a or b\<close> for an optional string \<open>a\<close>: \<open>None\<close> and the empty string are falsy.\<close>

fun py_or :: "string option \<Rightarrow> json \<Rightarrow> json" where
  "py_or None b = b"
| "py_or (Some s) b = (if s = [] then b else JStr s)"

text \<open>
  \<open>fetched\<close> is the outcome of building the flow and exchanging the code (an exception
  of the provider's library, or the credentials), \<open>state\<close> the query parameter of that
  name, \<open>rnds\<close> the random names of the temporary file. The result is the returned
  body (or the exception) and the disk afterwards.
\<close>

definition google_callback ::
  "string list \<Rightarrow> error + flow_credentials \<Rightarrow> string option \<Rightarrow> fs \<Rightarrow> (error + json) \<times> fs" where
  "google_callback rnds fetched state files =
     (case fetched of
        Inl e \<Rightarrow> (Inl e, files)
      | Inr credentials \<Rightarrow>
          (let user_id = (case state of None \<Rightarrow> ''default'' | Some s \<Rightarrow> s) in
           case load_tokens files of
             Inl e \<Rightarrow> (Inl e, files)
           | Inr tokens \<Rightarrow>
               (case py_get tokens user_id (JObj []) of
                  Inl e \<Rightarrow> (Inl e, files)
                | Inr record \<Rightarrow>
               (case py_get record ''refresh_token'' JNull of
                  Inl e \<Rightarrow> (Inl e, files)
                | Inr existing_refresh \<Rightarrow>
               (case py_setitem tokens user_id
                       (JObj [(''token'', json_opt (flow_token credentials)),
                              (''refresh_token'',
                                 py_or (flow_refresh_token credentials) existing_refresh)]) of
                  Inl e \<Rightarrow> (Inl e, files)
                | Inr tokens' \<Rightarrow>
                    (case save_tokens rnds tokens' files of
                       (Inl e, files') \<Rightarrow> (Inl e, files')
                     | (Inr _, files') \<Rightarrow>
                         (Inr (JObj [(''status'', JStr ''sheets connected successfully''),
                                     (''user'', JStr user_id)]),
                          files')))))))"

section \<open>Sheets helpers\<close>

text \<open>The \<open>Credentials\<close> object handed to the Sheets client.\<close>

record credentials =
  token :: json
  refresh_token :: json
  token_uri :: string
  client_id :: "string option"
  client_secret :: "string option"
  scopes :: "string list"

datatype service = Service credentials

text \<open>
  What the program asks of the client library, in the order it asks: building the
  service, and executing one of the three \<open>spreadsheets().values()\<close> requests with the
  keyword arguments of the source (\<open>spreadsheetId\<close>, \<open>range\<close>, \<open>valueInputOption\<close>,
  \<open>insertDataOption\<close>, \<open>body\<close>). The library answers with a value or raises.
\<close>

datatype remote_call =
    Build credentials
  | Values_get credentials json json
  | Values_update credentials json json string json
  | Values_append credentials json json string string json

type_synonym remote = "remote_call \<Rightarrow> error + json"

text \<open>
  Each function below returns its result together with the calls it made to the client
  library. A built service is an object, hence truthy.
\<close>

definition get_sheets_service ::
  "config \<Rightarrow> fs \<Rightarrow> remote \<Rightarrow> json \<Rightarrow> (error + service option) \<times> remote_call list" where
  "get_sheets_service cfg files remote user_id =
     (case load_tokens files of
        Inl e \<Rightarrow> (Inl e, [])
      | Inr tokens \<Rightarrow>
          (case py_in user_id tokens of
             Inl e \<Rightarrow> (Inl e, [])
           | Inr False \<Rightarrow> (Inr None, [])
           | Inr True \<Rightarrow>
               (case py_subscript tokens user_id of
                  Inl e \<Rightarrow> (Inl e, [])
                | Inr record \<Rightarrow>
                    (case py_getitem record ''token'' of
                       Inl e \<Rightarrow> (Inl e, [])
                     | Inr tok \<Rightarrow>
                         (case py_getitem record ''refresh_token'' of
                            Inl e \<Rightarrow> (Inl e, [])
                          | Inr rtok \<Rightarrow>
                              (let creds = \<lparr>token = tok, refresh_token = rtok,
                                     token_uri = ''https://oauth2.googleapis.com/token'',
                                     client_id = GOOGLE_CLIENT_ID cfg,
                                     client_secret = GOOGLE_CLIENT_SECRET cfg,
                                     scopes = SCOPES\<rparr> in
                               case remote (Build creds) of
                                 Inl e \<Rightarrow> (Inl e, [Build creds])
                               | Inr _ \<Rightarrow> (Inr (Some (Service creds)), [Build creds])))))))"

definition sheets_read_range ::
  "config \<Rightarrow> fs \<Rightarrow> remote \<Rightarrow> json \<Rightarrow> json \<Rightarrow> json \<Rightarrow> (error + json) \<times> remote_call list" where
  "sheets_read_range cfg files remote user_id spreadsheet_id range' =
     (case get_sheets_service cfg files remote user_id of
        (Inl e, cs) \<Rightarrow> (Inl e, cs)
      | (Inr None, cs) \<Rightarrow> (Inr (JStr ''AUTH_REQUIRED''), cs)
      | (Inr (Some (Service creds)), cs) \<Rightarrow>
          (let call = Values_get creds spreadsheet_id range' in
           case remote call of
             Inl e \<Rightarrow> (Inl e, cs @ [call])
           | Inr result \<Rightarrow>
               (case py_get result ''values'' (JArr []) of
                  Inl e \<Rightarrow> (Inl e, cs @ [call])
                | Inr vs \<Rightarrow> (Inr vs, cs @ [call]))))"

definition sheets_write_range ::
  "config \<Rightarrow> fs \<Rightarrow> remote \<Rightarrow> json \<Rightarrow> json \<Rightarrow> json \<Rightarrow> json \<Rightarrow> (error + json) \<times> remote_call list" where
  "sheets_write_range cfg files remote user_id spreadsheet_id range' values =
     (case get_sheets_service cfg files remote user_id of
        (Inl e, cs) \<Rightarrow> (Inl e, cs)
      | (Inr None, cs) \<Rightarrow> (Inr (JStr ''AUTH_REQUIRED''), cs)
      | (Inr (Some (Service creds)), cs) \<Rightarrow>
          (let body = JObj [(''values'', values)];
               call = Values_update creds spreadsheet_id range' ''RAW'' body in
           case remote call of
             Inl e \<Rightarrow> (Inl e, cs @ [call])
           | Inr _ \<Rightarrow> (Inr (JStr ''UPDATED''), cs @ [call])))"

definition sheets_append_row ::
  "config \<Rightarrow> fs \<Rightarrow> remote \<Rightarrow> json \<Rightarrow> json \<Rightarrow> json \<Rightarrow> json \<Rightarrow> (error + json) \<times> remote_call list" where
  "sheets_append_row cfg files remote user_id spreadsheet_id range' values =
     (case get_sheets_service cfg files remote user_id of
        (Inl e, cs) \<Rightarrow> (Inl e, cs)
      | (Inr None, cs) \<Rightarrow> (Inr (JStr ''AUTH_REQUIRED''), cs)
      | (Inr (Some (Service creds)), cs) \<Rightarrow>
          (let body = JObj [(''values'', JArr [values])];
               call = Values_append creds spreadsheet_id range' ''RAW'' ''INSERT_ROWS'' body in
           case remote call of
             Inl e \<Rightarrow> (Inl e, cs @ [call])
           | Inr _ \<Rightarrow> (Inr (JStr ''APPENDED''), cs @ [call])))"

section \<open>The MCP endpoint\<close>

text \<open>
  A handler that returns a dict answers with status 200 and the dict as body; a
  \<open>JSONResponse\<close> carries its own status code.
\<close>

record response =
  status_code :: nat
  content :: json

text \<open>The static catalog returned by \<open>tools/list\<close>.\<close>

definition tools_catalog :: json where
  "tools_catalog =
     JArr [
       JObj [(''name'', JStr ''sheets.read_range''),
             (''description'', JStr ''Read values from a Google Sheet range''),
             (''inputSchema'', JObj [
                (''type'', JStr ''object''),
                (''properties'', JObj [
                   (''spreadsheet_id'', JObj [(''type'', JStr ''string'')]),
                   (''range'', JObj [(''type'', JStr ''string'')])]),
                (''required'', JArr [JStr ''spreadsheet_id'', JStr ''range''])])],
       JObj [(''name'', JStr ''sheets.write_range''),
             (''description'', JStr ''Write values to a Google Sheet range''),
             (''inputSchema'', JObj [
                (''type'', JStr ''object''),
                (''properties'', JObj [
                   (''spreadsheet_id'', JObj [(''type'', JStr ''string'')]),
                   (''range'', JObj [(''type'', JStr ''string'')]),
                   (''values'', JObj [
                      (''type'', JStr ''array''),
                      (''items'', JObj [
                         (''type'', JStr ''array''),
                         (''items'', JObj [(''type'', JStr ''string'')])])])]),
                (''required'', JArr [JStr ''spreadsheet_id'', JStr ''range'', JStr ''values''])])],
       JObj [(''name'', JStr ''sheets.append_row''),
             (''description'', JStr ''Append a new row to a Google Sheet''),
             (''inputSchema'', JObj [
                (''type'', JStr ''object''),
                (''properties'', JObj [
                   (''spreadsheet_id'', JObj [(''type'', JStr ''string'')]),
                   (''range'', JObj [(''type'', JStr ''string'')]),
                   (''values'', JObj [
                      (''type'', JStr ''array''),
                      (''items'', JObj [(''type'', JStr ''string'')])])]),
                (''required'', JArr [JStr ''spreadsheet_id'', JStr ''range'', JStr ''values''])])]]"

text \<open>The two result texts start with an emoji, written here as its UTF-8 bytes.\<close>

definition sheet_updated_text :: string where
  "sheet_updated_text = [CHR 0xE2, CHR 0x9C, CHR 0x85] @ '' Sheet updated''"

definition row_appended_text :: string where
  "row_appended_text = [CHR 0xE2, CHR 0x9E, CHR 0x95] @ '' Row appended''"

text \<open>
  \<open>JSONResponse(status_code=..., content=...)\<close> renders the body in its constructor,
  and raises what the rendering raises.
\<close>

definition JSONResponse :: "runtime \<Rightarrow> nat \<Rightarrow> json \<Rightarrow> error + response" where
  "JSONResponse rt status content' =
     (case render rt content' of
        Some e \<Rightarrow> Inl e
      | None \<Rightarrow> Inr \<lparr>status_code = status, content = content'\<rparr>)"

text \<open>The final \<open>return JSONResponse(status_code=400, ...)\<close> of the handler.\<close>

definition method_not_found :: "runtime \<Rightarrow> json \<Rightarrow> error + response" where
  "method_not_found rt id' =
     JSONResponse rt 400
       (JObj [(''jsonrpc'', JStr ''2.0''),
              (''id'', id'),
              (''error'', JObj [(''code'', JInt (- 32601)),
                                (''message'', JStr ''Method not found'')])])"

text \<open>
  The handler, from the parsed body \<open>payload\<close> on. \<open>method\<close>, \<open>id\<close> and the user are
  read before the method is looked at; under \<open>tools/call\<close> the tool name and the
  arguments are read before the tool is looked at, and the arguments of a tool are
  subscripted before the helper is called. A \<open>tools/call\<close> for no known tool leaves the
  \<open>if\<close> and reaches the final return.
\<close>

definition mcp_handler ::
  "runtime \<Rightarrow> config \<Rightarrow> fs \<Rightarrow> remote \<Rightarrow> json \<Rightarrow> (error + response) \<times> remote_call list" where
  "mcp_handler rt cfg files remote payload =
     (case py_get payload ''method'' JNull of
        Inl e \<Rightarrow> (Inl e, [])
      | Inr method \<Rightarrow>
     (case py_get payload ''id'' JNull of
        Inl e \<Rightarrow> (Inl e, [])
      | Inr id' \<Rightarrow>
     (case get_user_id payload of
        Inl e \<Rightarrow> (Inl e, [])
      | Inr user_id \<Rightarrow>
     if method = JStr ''initialize'' then
       (Inr \<lparr>status_code = 200,
             content = JObj [(''jsonrpc'', JStr ''2.0''),
                             (''id'', id'),
                             (''result'', JObj [
                                (''serverInfo'', JObj [
                                   (''name'', JStr ''Multi-User Google Sheets MCP''),
                                   (''version'', JStr ''0.1.0'')])])]\<rparr>, [])
     else if method = JStr ''tools/list'' then
       (Inr \<lparr>status_code = 200,
             content = JObj [(''jsonrpc'', JStr ''2.0''),
                             (''id'', id'),
                             (''result'', JObj [(''tools'', tools_catalog)])]\<rparr>, [])
     else if method = JStr ''tools/call'' then
       (case py_getitem payload ''params'' of
          Inl e \<Rightarrow> (Inl e, [])
        | Inr params \<Rightarrow>
       (case py_getitem params ''name'' of
          Inl e \<Rightarrow> (Inl e, [])
        | Inr tool \<Rightarrow>
       (case py_get params ''arguments'' (JObj []) of
          Inl e \<Rightarrow> (Inl e, [])
        | Inr args \<Rightarrow>
       if tool = JStr ''sheets.read_range'' then
         (case py_getitem args ''spreadsheet_id'' of
            Inl e \<Rightarrow> (Inl e, [])
          | Inr spreadsheet_id \<Rightarrow>
         (case py_getitem args ''range'' of
            Inl e \<Rightarrow> (Inl e, [])
          | Inr range' \<Rightarrow>
         (case sheets_read_range cfg files remote user_id spreadsheet_id range' of
            (Inl e, cs) \<Rightarrow> (Inl e, cs)
          | (Inr res, cs) \<Rightarrow>
              if res = JStr ''AUTH_REQUIRED'' then
                (Inr \<lparr>status_code = 200, content = auth_error rt cfg id' user_id\<rparr>, cs)
              else
                (Inr \<lparr>status_code = 200,
                      content = JObj [(''jsonrpc'', JStr ''2.0''),
                                      (''id'', id'),
                                      (''result'', JObj [
                                         (''content'', JArr [
                                            JObj [(''type'', JStr ''json''),
                                                  (''json'', res)]])])]\<rparr>, cs))))
       else if tool = JStr ''sheets.write_range'' then
         (case py_getitem args ''spreadsheet_id'' of
            Inl e \<Rightarrow> (Inl e, [])
          | Inr spreadsheet_id \<Rightarrow>
         (case py_getitem args ''range'' of
            Inl e \<Rightarrow> (Inl e, [])
          | Inr range' \<Rightarrow>
         (case py_getitem args ''values'' of
            Inl e \<Rightarrow> (Inl e, [])
          | Inr values \<Rightarrow>
         (case sheets_write_range cfg files remote user_id spreadsheet_id range' values of
            (Inl e, cs) \<Rightarrow> (Inl e, cs)
          | (Inr res, cs) \<Rightarrow>
              if res = JStr ''AUTH_REQUIRED'' then
                (Inr \<lparr>status_code = 200, content = auth_error rt cfg id' user_id\<rparr>, cs)
              else
                (Inr \<lparr>status_code = 200,
                      content = JObj [(''jsonrpc'', JStr ''2.0''),
                                      (''id'', id'),
                                      (''result'', JObj [
                                         (''content'', JArr [
                                            JObj [(''type'', JStr ''text''),
                                                  (''text'', JStr sheet_updated_text)]])])]\<rparr>,
                 cs)))))
       else if tool = JStr ''sheets.append_row'' then
         (case py_getitem args ''spreadsheet_id'' of
            Inl e \<Rightarrow> (Inl e, [])
          | Inr spreadsheet_id \<Rightarrow>
         (case py_getitem args ''range'' of
            Inl e \<Rightarrow> (Inl e, [])
          | Inr range' \<Rightarrow>
         (case py_getitem args ''values'' of
            Inl e \<Rightarrow> (Inl e, [])
          | Inr values \<Rightarrow>
         (case sheets_append_row cfg files remote user_id spreadsheet_id range' values of
            (Inl e, cs) \<Rightarrow> (Inl e, cs)
          | (Inr res, cs) \<Rightarrow>
              if res = JStr ''AUTH_REQUIRED'' then
                (Inr \<lparr>status_code = 200, content = auth_error rt cfg id' user_id\<rparr>, cs)
              else
                (Inr \<lparr>status_code = 200,
                      content = JObj [(''jsonrpc'', JStr ''2.0''),
                                      (''id'', id'),
                                      (''result'', JObj [
                                         (''content'', JArr [
                                            JObj [(''type'', JStr ''text''),
                                                  (''text'', JStr row_appended_text)]])])]\<rparr>,
                 cs)))))
       else (method_not_found rt id', []))))
     else (method_not_found rt id', []))))"

section \<open>Observations and concrete data\<close>

text \<open>
  The record a later \<open>load_tokens().get(u)\<close> finds for a user, if any; only a dict has
  the method.
\<close>

definition stored_record :: "fs \<Rightarrow> string \<Rightarrow> error + json option" where
  "stored_record files u =
     (case load_tokens files of
        Inl e \<Rightarrow> Inl e
      | Inr (JObj tokens) \<Rightarrow> Inr (map_of tokens u)
      | Inr _ \<Rightarrow> Inl (AttributeError ''get''))"

text \<open>The three tool names the handler compares with.\<close>

definition catalogued :: "string list" where
  "catalogued = [''sheets.read_range'', ''sheets.write_range'', ''sheets.append_row'']"

text \<open>The arguments the branch of a tool subscripts, in the order of the source.\<close>

definition required_arguments :: "string \<Rightarrow> string list" where
  "required_arguments tool =
     (if tool = ''sheets.read_range'' then [''spreadsheet_id'', ''range'']
      else [''spreadsheet_id'', ''range'', ''values''])"

text \<open>The request of the write-range scenario, for a request id and a user.\<close>

definition write_range_request :: "json \<Rightarrow> string \<Rightarrow> json" where
  "write_range_request rid u =
     JObj [(''jsonrpc'', JStr ''2.0''),
           (''id'', rid),
           (''method'', JStr ''tools/call''),
           (''params'', JObj [
              (''name'', JStr ''sheets.write_range''),
              (''arguments'', JObj [
                 (''spreadsheet_id'', JStr ''S1''),
                 (''range'', JStr ''A1:B2''),
                 (''values'', JArr [JArr [JStr ''x'', JStr ''y''],
                                   JArr [JStr ''1'', JStr ''2'']])])]),
           (''meta'', JObj [(''user_id'', JStr u)])]"

text \<open>
  A rendering for the examples. It fails as \<open>json.dumps\<close> with \<open>allow_nan=False\<close>
  does, on a float that is not finite, and then as the encoding to UTF-8 does, on a
  string or a key with an unpaired surrogate.
\<close>

fun nonfinite :: "json \<Rightarrow> bool"
  and nonfinite_list :: "json list \<Rightarrow> bool"
  and nonfinite_items :: "(string \<times> json) list \<Rightarrow> bool" where
  "nonfinite (JFloat f) = (case f of Finite v r \<Rightarrow> False | _ \<Rightarrow> True)"
| "nonfinite (JArr xs) = nonfinite_list xs"
| "nonfinite (JObj kvs) = nonfinite_items kvs"
| "nonfinite _ = False"
| "nonfinite_list [] = False"
| "nonfinite_list (x # xs) = (nonfinite x \<or> nonfinite_list xs)"
| "nonfinite_items [] = False"
| "nonfinite_items (kv # kvs) = (nonfinite (snd kv) \<or> nonfinite_items kvs)"

fun unencodable :: "json \<Rightarrow> bool"
  and unencodable_list :: "json list \<Rightarrow> bool"
  and unencodable_items :: "(string \<times> json) list \<Rightarrow> bool" where
  "unencodable (JStr s) = has_surrogate s"
| "unencodable (JArr xs) = unencodable_list xs"
| "unencodable (JObj kvs) = unencodable_items kvs"
| "unencodable _ = False"
| "unencodable_list [] = False"
| "unencodable_list (x # xs) = (unencodable x \<or> unencodable_list xs)"
| "unencodable_items [] = False"
| "unencodable_items (kv # kvs) =
     (has_surrogate (fst kv) \<or> unencodable (snd kv) \<or> unencodable_items kvs)"

definition json_render :: "json \<Rightarrow> error option" where
  "json_render content' =
     (if nonfinite content' then
        Some (ValueError ''Out of range float values are not JSON compliant'')
      else if unencodable content' then Some UnicodeEncodeError
      else None)"

text \<open>
  The Unicode table up to \<open>U+00FF\<close>; the examples format no code point beyond it.
\<close>

definition latin1_printable :: "nat \<Rightarrow> bool" where
  "latin1_printable cp = ((32 \<le> cp \<and> cp < 127) \<or> (0xA1 \<le> cp \<and> cp \<le> 0xFF \<and> cp \<noteq> 0xAD))"

definition rt0 :: runtime where
  "rt0 = \<lparr>isprintable = latin1_printable, render = json_render\<rparr>"

text \<open>A configuration, disks and two remotes for the examples.\<close>

definition cfg0 :: config where
  "cfg0 = \<lparr>GOOGLE_CLIENT_ID = Some ''client'', GOOGLE_CLIENT_SECRET = Some ''secret'',
            BASE_URL = Some ''https://mcp.example''\<rparr>"

definition no_files :: fs where
  "no_files name = None"

definition garbled_files :: fs where
  "garbled_files name = (if name = TOKEN_FILE then Some (Utf8 Not_json) else None)"

definition undecodable_files :: fs where
  "undecodable_files name = (if name = TOKEN_FILE then Some Not_utf8 else None)"

definition list_files :: fs where
  "list_files name =
     (if name = TOKEN_FILE then Some (Utf8 (Json_text (JArr [JStr ''alice'']))) else None)"

definition null_files :: fs where
  "null_files name = (if name = TOKEN_FILE then Some (Utf8 (Json_text JNull)) else None)"

definition alice_files :: fs where
  "alice_files name =
     (if name = TOKEN_FILE then
        Some (Utf8 (Json_text (JObj [
          (''alice'', JObj [(''token'', JStr ''t0''), (''refresh_token'', JStr ''r0'')]),
          (''bob'', JObj [(''token'', JStr ''t1''), (''refresh_token'', JStr ''r1'')])])))
      else None)"

definition offline :: remote where
  "offline call = Inl (External ''offline'')"

definition accepting :: remote where
  "accepting call = Inr (JObj [])"

definition alice_creds :: credentials where
  "alice_creds = \<lparr>token = JStr ''t0'', refresh_token = JStr ''r0'',
                   token_uri = ''https://oauth2.googleapis.com/token'',
                   client_id = Some ''client'', client_secret = Some ''secret'',
                   scopes = SCOPES\<rparr>"

text \<open>Request bodies, as the key-value lists of their top-level objects.\<close>

definition carol_read_request :: dict where
  "carol_read_request =
     [(''jsonrpc'', JStr ''2.0''), (''id'', JInt 5), (''method'', JStr ''tools/call''),
      (''params'', JObj [(''name'', JStr ''sheets.read_range''),
                         (''arguments'', JObj [(''spreadsheet_id'', JStr ''S1''),
                                               (''range'', JStr ''A1:B2'')])]),
      (''meta'', JObj [(''user_id'', JStr ''carol'')])]"

definition bob_append_request :: dict where
  "bob_append_request =
     [(''jsonrpc'', JStr ''2.0''), (''id'', JInt 6), (''method'', JStr ''tools/call''),
      (''params'', JObj [(''name'', JStr ''sheets.append_row''),
                         (''arguments'', JObj [(''spreadsheet_id'', JStr ''S1''),
                                               (''values'', JArr [JStr ''x''])])]),
      (''meta'', JObj [(''user_id'', JStr ''bob'')])]"

definition zed_list_request :: dict where
  "zed_list_request =
     [(''jsonrpc'', JStr ''2.0''), (''id'', JInt 8), (''method'', JStr ''tools/call''),
      (''params'', JObj [(''name'', JStr ''sheets.read_range''),
                         (''arguments'', JObj [(''spreadsheet_id'', JStr ''S1''),
                                               (''range'', JStr ''A1:B2'')])]),
      (''meta'', JObj [(''user_id'', JArr [JStr ''zed''])])]"

definition null_user_request :: dict where
  "null_user_request =
     [(''jsonrpc'', JStr ''2.0''), (''id'', JInt 9), (''method'', JStr ''tools/call''),
      (''params'', JObj [(''name'', JStr ''sheets.append_row''),
                         (''arguments'', JObj [(''spreadsheet_id'', JStr ''S1''),
                                               (''range'', JStr ''A1''),
                                               (''values'', JArr [JStr ''x''])])]),
      (''meta'', JObj [(''user_id'', JNull)])]"

definition infinite_id_request :: dict where
  "infinite_id_request =
     [(''jsonrpc'', JStr ''2.0''), (''id'', JFloat PosInf), (''method'', JStr ''ping'')]"

definition initialize_request :: json where
  "initialize_request =
     JObj [(''jsonrpc'', JStr ''2.0''), (''id'', JStr ''req-1''), (''method'', JStr ''initialize'')]"

definition ping_request :: dict where
  "ping_request = [(''jsonrpc'', JStr ''2.0''), (''id'', JInt 3), (''method'', JStr ''ping'')]"

definition delete_sheet_request :: dict where
  "delete_sheet_request =
     [(''jsonrpc'', JStr ''2.0''), (''id'', JInt 4), (''method'', JStr ''tools/call''),
      (''params'', JObj [(''name'', JStr ''sheets.delete_sheet''),
                         (''arguments'', JObj [(''spreadsheet_id'', JStr ''S1'')])])]"

definition initialize_response :: response where
  "initialize_response =
     \<lparr>status_code = 200,
      content = JObj [(''jsonrpc'', JStr ''2.0''),
                      (''id'', JStr ''req-1''),
                      (''result'', JObj [
                         (''serverInfo'', JObj [
                            (''name'', JStr ''Multi-User Google Sheets MCP''),
                            (''version'', JStr ''0.1.0'')])])]\<rparr>"

section \<open>Properties of the credential store\<close>

lemma tmp_name_not_target: "''tmp'' @ r \<noteq> TOKEN_FILE"
  by (simp add: TOKEN_FILE_def)

lemma NamedTemporaryFile_fresh:
  assumes "NamedTemporaryFile files rnds = Inr temp_name"
  shows "files temp_name = None" and "temp_name \<noteq> TOKEN_FILE"
proof -
  from assms obtain r where r: "find (\<lambda>r. files (''tmp'' @ r) = None) rnds = Some r"
    and n: "temp_name = ''tmp'' @ r"
    by (auto simp: NamedTemporaryFile_def split: option.splits)
  from r have "files (''tmp'' @ r) = None"
    by (auto simp: find_Some_iff)
  with n show "files temp_name = None" by simp
  from n show "temp_name \<noteq> TOKEN_FILE" using tmp_name_not_target by simp
qed

lemma load_tokens_cong:
  "s TOKEN_FILE = files TOKEN_FILE \<Longrightarrow> load_tokens s = load_tokens files"
  by (simp add: load_tokens_def)

lemma save_tokens_cases:
  "(\<exists>e. save_tokens rnds tokens files = (Inl e, files))
   \<or> (\<exists>files'. save_tokens rnds tokens files = (Inr (), files')
         \<and> files' TOKEN_FILE = Some (Utf8 (Json_text tokens)))"
proof (cases "NamedTemporaryFile files rnds")
  case (Inl e)
  then show ?thesis by (simp add: save_tokens_def)
next
  case (Inr temp_name)
  then show ?thesis by (simp add: save_tokens_def replace_def)
qed

lemma stored_record_Json_text:
  "files TOKEN_FILE = Some (Utf8 (Json_text (JObj d))) \<Longrightarrow>
   stored_record files k = Inr (map_of d k)"
  by (simp add: stored_record_def load_tokens_def)

lemma stored_record_SomeD:
  assumes "stored_record files u = Inr r"
  shows "\<exists>tokens. load_tokens files = Inr (JObj tokens) \<and> map_of tokens u = r"
  using assms by (auto simp: stored_record_def split: sum.splits json.splits)

text \<open>
  What \<open>load_tokens\<close> does return as the empty mapping: an absent file, and a text
  on which \<open>json.loads\<close> raises \<open>JSONDecodeError\<close>. A text that parses is returned as
  the value it parses to, a mapping or not.
\<close>

lemma load_tokens_absent_or_malformed:
  "(files TOKEN_FILE = None \<longrightarrow> load_tokens files = Inr (JObj []))
   \<and> (files TOKEN_FILE = Some (Utf8 Not_json) \<longrightarrow> load_tokens files = Inr (JObj []))"
  by (simp add: load_tokens_def)

lemma load_tokens_list:
  "load_tokens list_files = Inr (JArr [JStr ''alice''])"
  by (simp add: load_tokens_def list_files_def)

text \<open>
  Claim C4. \<open>load_tokens\<close> is to return the empty mapping for a backing file that
  exists and is not well-formed. The code catches only \<open>JSONDecodeError\<close>, and
  \<open>read_text\<close> stands inside the \<open>try\<close>: for a file whose bytes are not UTF-8 (a
  corrupted file, as the comment on the handler calls it) the \<open>UnicodeDecodeError\<close>
  of the decoding leaves \<open>load_tokens\<close>.
\<close>

theorem load_tokens_undecodable_raises:
  "undecodable_files TOKEN_FILE = Some Not_utf8
   \<and> load_tokens undecodable_files = Inl UnicodeDecodeError"
  by (simp add: load_tokens_def undecodable_files_def)

text \<open>
  Claim C2. \<open>save_tokens\<close> creates a temporary file that did not exist before, in the
  directory of the target and under another name, writes the complete serialized mapping
  to it, and only then renames it over the target. In every state of the disk before
  the rename the target is the file it was, and \<open>load_tokens\<close> reads from it what it
  read before the save; just before the rename the temporary file holds the complete
  mapping; after the rename the target holds the new mapping, and \<open>load_tokens\<close>
  returns it.
\<close>

theorem save_tokens_atomic:
  assumes "NamedTemporaryFile files rnds = Inr temp_name"
  shows "files temp_name = None \<and> temp_name \<noteq> TOKEN_FILE
    \<and> (\<forall>s \<in> set (butlast (save_tokens_states rnds partial tokens files)).
          s TOKEN_FILE = files TOKEN_FILE \<and> load_tokens s = load_tokens files)
    \<and> last (butlast (save_tokens_states rnds partial tokens files)) temp_name
          = Some (Utf8 (Json_text tokens))
    \<and> last (save_tokens_states rnds partial tokens files) = snd (save_tokens rnds tokens files)
    \<and> fst (save_tokens rnds tokens files) = Inr ()
    \<and> snd (save_tokens rnds tokens files) TOKEN_FILE = Some (Utf8 (Json_text tokens))
    \<and> load_tokens (snd (save_tokens rnds tokens files)) = Inr tokens"
proof -
  note fresh = NamedTemporaryFile_fresh [OF assms]
  let ?full = "files(temp_name \<mapsto> Utf8 (Json_text tokens))"
  have states: "save_tokens_states rnds partial tokens files =
      ([files, files(temp_name \<mapsto> Utf8 Not_json)] @ map (\<lambda>p. files(temp_name \<mapsto> p)) partial
        @ [?full]) @ [replace temp_name TOKEN_FILE ?full]"
    using assms by (simp add: save_tokens_states_def)
  have before: "butlast (save_tokens_states rnds partial tokens files) =
      [files, files(temp_name \<mapsto> Utf8 Not_json)] @ map (\<lambda>p. files(temp_name \<mapsto> p)) partial
        @ [?full]"
    unfolding states by (simp only: butlast_snoc)
  have untouched: "s TOKEN_FILE = files TOKEN_FILE"
    if "s \<in> set (butlast (save_tokens_states rnds partial tokens files))" for s
    using that fresh(2) unfolding before by auto
  have saved: "save_tokens rnds tokens files = (Inr (), replace temp_name TOKEN_FILE ?full)"
    using assms by (simp add: save_tokens_def)
  have target: "replace temp_name TOKEN_FILE ?full TOKEN_FILE = Some (Utf8 (Json_text tokens))"
    by (simp add: replace_def)
  have middle: "last (butlast (save_tokens_states rnds partial tokens files)) temp_name
      = Some (Utf8 (Json_text tokens))"
    unfolding before by simp
  have final: "last (save_tokens_states rnds partial tokens files)
      = replace temp_name TOKEN_FILE ?full"
    unfolding states by (simp only: last_snoc)
  have loaded: "load_tokens (replace temp_name TOKEN_FILE ?full) = Inr tokens"
    using target by (simp add: load_tokens_def)
  have intact: "\<forall>s \<in> set (butlast (save_tokens_states rnds partial tokens files)).
      s TOKEN_FILE = files TOKEN_FILE \<and> load_tokens s = load_tokens files"
    using untouched by (blast intro: load_tokens_cong)
  from fresh intact middle final target loaded show ?thesis
    unfolding saved fst_conv snd_conv by blast
qed

theorem save_tokens_atomic_witness:
  "NamedTemporaryFile alice_files [''k3x9_q0a''] = Inr ''tmpk3x9_q0a''
   \<and> list_all (\<lambda>s. s TOKEN_FILE = alice_files TOKEN_FILE
                     \<and> load_tokens s = load_tokens alice_files)
        (butlast (save_tokens_states [''k3x9_q0a''] [Not_utf8] (JObj []) alice_files))
   \<and> load_tokens (snd (save_tokens [''k3x9_q0a''] (JObj []) alice_files)) = Inr (JObj [])"
proof -
  have h: "NamedTemporaryFile alice_files [''k3x9_q0a''] = Inr ''tmpk3x9_q0a''"
    by (simp add: NamedTemporaryFile_def alice_files_def TOKEN_FILE_def)
  show ?thesis
    using h save_tokens_atomic [OF h, of "[Not_utf8]" "JObj []"] by (simp add: list_all_iff)
qed

section \<open>Properties of the authorization callback\<close>

lemma google_callback_success:
  assumes "load_tokens files = Inr (JObj tokens)"
      and "py_get (case map_of tokens u of None \<Rightarrow> JObj [] | Some r \<Rightarrow> r) ''refresh_token'' JNull
             = Inr existing"
      and "NamedTemporaryFile files rnds = Inr temp_name"
  shows "google_callback rnds (Inr credentials) (Some u) files =
     (Inr (JObj [(''status'', JStr ''sheets connected successfully''), (''user'', JStr u)]),
      replace temp_name TOKEN_FILE (files(temp_name \<mapsto> Utf8 (Json_text (JObj
        (AList.update u
           (JObj [(''token'', json_opt (flow_token credentials)),
                  (''refresh_token'', py_or (flow_refresh_token credentials) existing)])
           tokens))))))"
  using assms by (simp add: google_callback_def save_tokens_def Let_def)

text \<open>
  Claim C3. When a user \<open>u\<close> has a stored record whose refresh token is \<open>r\<close>, and the
  callback for \<open>u\<close> gets from the provider an access token \<open>t\<close> and no refresh token
  (and the temporary file of the save can be created), the callback answers with
  success, and the record stored for \<open>u\<close> afterwards has access token \<open>t\<close> and refresh
  token \<open>r\<close>: the stored refresh token is not overwritten by the absent one.
\<close>

theorem callback_keeps_refresh_token:
  assumes "stored_record files u = Inr (Some (JObj record))"
      and "map_of record ''refresh_token'' = Some r"
      and "NamedTemporaryFile files rnds = Inr temp_name"
  shows "fst (google_callback rnds (Inr \<lparr>flow_token = Some t, flow_refresh_token = None\<rparr>)
                (Some u) files)
           = Inr (JObj [(''status'', JStr ''sheets connected successfully''), (''user'', JStr u)])
     \<and> stored_record
           (snd (google_callback rnds (Inr \<lparr>flow_token = Some t, flow_refresh_token = None\<rparr>)
                   (Some u) files)) u
           = Inr (Some (JObj [(''token'', JStr t), (''refresh_token'', r)]))"
proof -
  from stored_record_SomeD [OF assms(1)] obtain tokens
    where tokens: "load_tokens files = Inr (JObj tokens)" "map_of tokens u = Some (JObj record)"
    by blast
  with assms(2) have existing:
    "py_get (case map_of tokens u of None \<Rightarrow> JObj [] | Some r \<Rightarrow> r) ''refresh_token'' JNull = Inr r"
    by simp
  note run = google_callback_success [OF tokens(1) existing assms(3),
      of "\<lparr>flow_token = Some t, flow_refresh_token = None\<rparr>"]
  let ?after = "snd (google_callback rnds
      (Inr \<lparr>flow_token = Some t, flow_refresh_token = None\<rparr>) (Some u) files)"
  have "?after TOKEN_FILE = Some (Utf8 (Json_text (JObj
      (AList.update u (JObj [(''token'', JStr t), (''refresh_token'', r)]) tokens))))"
    unfolding run by (simp add: replace_def)
  then have "stored_record ?after u =
      Inr (map_of (AList.update u (JObj [(''token'', JStr t), (''refresh_token'', r)]) tokens) u)"
    by (rule stored_record_Json_text)
  then show ?thesis
    unfolding run by (simp add: update_conv')
qed

theorem callback_keeps_refresh_token_witness:
  "stored_record alice_files ''alice''
     = Inr (Some (JObj [(''token'', JStr ''t0''), (''refresh_token'', JStr ''r0'')]))
   \<and> NamedTemporaryFile alice_files [''k3x9_q0a''] = Inr ''tmpk3x9_q0a''
   \<and> stored_record
        (snd (google_callback [''k3x9_q0a'']
                (Inr \<lparr>flow_token = Some ''t9'', flow_refresh_token = None\<rparr>)
                (Some ''alice'') alice_files)) ''alice''
     = Inr (Some (JObj [(''token'', JStr ''t9''), (''refresh_token'', JStr ''r0'')]))"
proof -
  have h1: "stored_record alice_files ''alice''
      = Inr (Some (JObj [(''token'', JStr ''t0''), (''refresh_token'', JStr ''r0'')]))"
    by (simp add: stored_record_def load_tokens_def alice_files_def)
  have h2: "map_of [(''token'', JStr ''t0''), (''refresh_token'', JStr ''r0'')] ''refresh_token''
      = Some (JStr ''r0'')"
    by simp
  have h3: "NamedTemporaryFile alice_files [''k3x9_q0a''] = Inr ''tmpk3x9_q0a''"
    by (simp add: NamedTemporaryFile_def alice_files_def TOKEN_FILE_def)
  show ?thesis
    using h1 h3 callback_keeps_refresh_token [OF h1 h2 h3, of "''t9''"] by simp
qed

text \<open>
  Claim C9. The callback changes only the record of the user named by the \<open>state\<close>
  parameter (\<open>default\<close> when there is none): for every other user, the record stored
  after the callback, whatever its outcome, is the record stored before it.
\<close>

theorem callback_frame:
  assumes "k \<noteq> (case state of None \<Rightarrow> ''default'' | Some s \<Rightarrow> s)"
  shows "stored_record (snd (google_callback rnds fetched state files)) k = stored_record files k"
proof (cases fetched)
  case (Inl e)
  then show ?thesis by (simp add: google_callback_def)
next
  case (Inr credentials)
  define u where "u = (case state of None \<Rightarrow> ''default'' | Some s \<Rightarrow> s)"
  show ?thesis
  proof (cases "load_tokens files")
    case (Inl e)
    with Inr show ?thesis by (simp add: google_callback_def Let_def)
  next
    case loaded: (Inr loaded)
    show ?thesis
    proof (cases "py_get loaded u (JObj [])")
      case (Inl e)
      with Inr loaded show ?thesis by (simp add: google_callback_def u_def Let_def)
    next
      case rec: (Inr rec)
      then obtain tokens where tokens: "loaded = JObj tokens"
        by (cases loaded) auto
      show ?thesis
      proof (cases "py_get rec ''refresh_token'' JNull")
        case (Inl e)
        with Inr loaded rec show ?thesis by (simp add: google_callback_def u_def Let_def)
      next
        case existing: (Inr existing)
        define tokens' where "tokens' = AList.update u
            (JObj [(''token'', json_opt (flow_token credentials)),
                   (''refresh_token'', py_or (flow_refresh_token credentials) existing)]) tokens"
        have run: "snd (google_callback rnds fetched state files)
            = snd (save_tokens rnds (JObj tokens') files)"
          using Inr loaded rec existing unfolding tokens
          by (simp add: google_callback_def u_def tokens'_def Let_def
              split: prod.splits sum.splits)
        from save_tokens_cases [of rnds "JObj tokens'" files] show ?thesis
        proof
          assume "\<exists>e. save_tokens rnds (JObj tokens') files = (Inl e, files)"
          then show ?thesis unfolding run by auto
        next
          assume "\<exists>files'. save_tokens rnds (JObj tokens') files = (Inr (), files')
                    \<and> files' TOKEN_FILE = Some (Utf8 (Json_text (JObj tokens')))"
          then obtain files' where saved: "save_tokens rnds (JObj tokens') files = (Inr (), files')"
              and target: "files' TOKEN_FILE = Some (Utf8 (Json_text (JObj tokens')))"
            by blast
          have "stored_record files' k = Inr (map_of tokens' k)"
            using target by (rule stored_record_Json_text)
          also have "map_of tokens' k = map_of tokens k"
            using assms by (simp add: tokens'_def update_conv' u_def)
          also have "Inr (map_of tokens k) = stored_record files k"
            using loaded tokens by (simp add: stored_record_def)
          finally show ?thesis unfolding run saved by simp
        qed
      qed
    qed
  qed
qed

theorem callback_frame_witness:
  "fst (google_callback [''k3x9_q0a'']
          (Inr \<lparr>flow_token = Some ''t9'', flow_refresh_token = Some ''r9''\<rparr>)
          (Some ''alice'') alice_files)
     = Inr (JObj [(''status'', JStr ''sheets connected successfully''), (''user'', JStr ''alice'')])
   \<and> stored_record
        (snd (google_callback [''k3x9_q0a'']
                (Inr \<lparr>flow_token = Some ''t9'', flow_refresh_token = Some ''r9''\<rparr>)
                (Some ''alice'') alice_files)) ''bob''
     = Inr (Some (JObj [(''token'', JStr ''t1''), (''refresh_token'', JStr ''r1'')]))"
proof -
  have h: "''bob'' \<noteq> (case Some ''alice'' of None \<Rightarrow> ''default'' | Some s \<Rightarrow> s)"
    by simp
  have before: "stored_record alice_files ''bob''
      = Inr (Some (JObj [(''token'', JStr ''t1''), (''refresh_token'', JStr ''r1'')]))"
    by (simp add: stored_record_def load_tokens_def alice_files_def)
  have answer: "fst (google_callback [''k3x9_q0a'']
          (Inr \<lparr>flow_token = Some ''t9'', flow_refresh_token = Some ''r9''\<rparr>)
          (Some ''alice'') alice_files)
     = Inr (JObj [(''status'', JStr ''sheets connected successfully''), (''user'', JStr ''alice'')])"
    by (simp add: google_callback_def save_tokens_def NamedTemporaryFile_def load_tokens_def
        alice_files_def TOKEN_FILE_def Let_def)
  show ?thesis
    using callback_frame [OF h, of "[''k3x9_q0a'']"
        "Inr \<lparr>flow_token = Some ''t9'', flow_refresh_token = Some ''r9''\<rparr>" alice_files]
      before answer
    by simp
qed

section \<open>Properties of the MCP endpoint\<close>

text \<open>
  The rendering of the examples accepts the error response whenever the \<open>id\<close> holds
  no float that is not finite and no unpaired surrogate.
\<close>

lemma utf8_len_ascii: "(of_char c :: nat) < 0x80 \<Longrightarrow> utf8_len c = 1"
  by (simp add: utf8_len_def Let_def)

lemma utf8_chars_ascii:
  "\<forall>c\<in>set s. (of_char c :: nat) < 0x80 \<Longrightarrow> utf8_chars s = map (\<lambda>c. [c]) s"
  by (induction s) (simp_all add: utf8_len_ascii)

lemma has_surrogate_ascii:
  assumes "\<forall>c\<in>set s. (of_char c :: nat) < 0x80"
  shows "\<not> has_surrogate s"
  using assms by (auto simp: has_surrogate_def utf8_chars_ascii list_ex_iff)

lemma json_render_not_found:
  assumes "\<not> nonfinite i" and "\<not> unencodable i"
  shows "json_render (JObj [(''jsonrpc'', JStr ''2.0''),
                            (''id'', i),
                            (''error'', JObj [(''code'', JInt (- 32601)),
                                              (''message'', JStr ''Method not found'')])]) = None"
  using assms by (simp add: json_render_def has_surrogate_ascii)

text \<open>
  The user is resolved before anything else is looked at: a \<open>meta\<close> that is present
  and not an object makes every request raise.
\<close>

lemma bad_meta_raises:
  assumes "map_of kvs ''meta'' = Some m" and "\<forall>ms. m \<noteq> JObj ms"
  shows "mcp_handler rt cfg files remote (JObj kvs) = (Inl (AttributeError ''get''), [])"
  using assms by (cases m) (simp_all add: mcp_handler_def get_user_id_def)

lemma get_user_id_object:
  assumes "map_of kvs ''meta'' = None \<or> (\<exists>m. map_of kvs ''meta'' = Some (JObj m))"
  shows "\<exists>user_id. get_user_id (JObj kvs) = Inr user_id"
  using assms by (auto simp: get_user_id_def)

lemma mcp_handler_envelope_aux:
  assumes "mcp_handler rt cfg files remote payload = (Inr resp, cs)"
  shows "\<exists>i rest. py_get payload ''id'' JNull = Inr i
     \<and> content resp = JObj ((''jsonrpc'', JStr ''2.0'') # (''id'', i) # rest)"
  using assms
  unfolding mcp_handler_def auth_error_def method_not_found_def JSONResponse_def
  by (auto split: sum.splits if_splits prod.splits option.splits)

text \<open>
  Claim C6. Every response the handler produces, with status 200 or 400, for whatever
  method, is an object whose \<open>jsonrpc\<close> member is \<open>2.0\<close> and whose \<open>id\<close> member is
  the \<open>id\<close> of the request (\<open>None\<close> when the request has none).
\<close>

theorem mcp_handler_envelope:
  assumes "mcp_handler rt cfg files remote payload = (Inr resp, cs)"
  shows "py_getitem (content resp) ''jsonrpc'' = Inr (JStr ''2.0'')
     \<and> py_getitem (content resp) ''id'' = py_get payload ''id'' JNull"
proof -
  from mcp_handler_envelope_aux [OF assms] obtain i rest
    where "py_get payload ''id'' JNull = Inr i"
      and "content resp = JObj ((''jsonrpc'', JStr ''2.0'') # (''id'', i) # rest)"
    by blast
  then show ?thesis by simp
qed

theorem mcp_handler_envelope_witness:
  "mcp_handler rt0 cfg0 no_files offline initialize_request = (Inr initialize_response, [])
   \<and> py_getitem (content initialize_response) ''jsonrpc'' = Inr (JStr ''2.0'')
   \<and> py_getitem (content initialize_response) ''id'' = Inr (JStr ''req-1'')"
proof -
  have h: "mcp_handler rt0 cfg0 no_files offline initialize_request = (Inr initialize_response, [])"
    by (simp add: mcp_handler_def initialize_request_def initialize_response_def get_user_id_def)
  show ?thesis
    using h mcp_handler_envelope [OF h] by (simp add: initialize_request_def)
qed

text \<open>
  Claim C7, amended. For every request object whose \<open>meta\<close> member is absent or is
  itself an object, whose method is none of \<open>initialize\<close>, \<open>tools/list\<close> and
  \<open>tools/call\<close> (or is absent), and whose error response \<open>JSONResponse\<close> can render
  (the \<open>id\<close> of the request is all that varies in it), the handler raises nothing and
  returns, with status 400, the error \<open>Method not found\<close> with code \<open>-32601\<close> and
  the \<open>id\<close> of the request; it calls no remote.
\<close>

theorem unknown_method_not_found:
  assumes "map_of kvs ''meta'' = None \<or> (\<exists>m. map_of kvs ''meta'' = Some (JObj m))"
      and "map_of kvs ''method'' \<noteq> Some (JStr ''initialize'')"
      and "map_of kvs ''method'' \<noteq> Some (JStr ''tools/list'')"
      and "map_of kvs ''method'' \<noteq> Some (JStr ''tools/call'')"
      and "py_get (JObj kvs) ''id'' JNull = Inr i"
      and "render rt (JObj [(''jsonrpc'', JStr ''2.0''),
                            (''id'', i),
                            (''error'', JObj [(''code'', JInt (- 32601)),
                                              (''message'', JStr ''Method not found'')])]) = None"
  shows "mcp_handler rt cfg files remote (JObj kvs) =
     (Inr \<lparr>status_code = 400,
           content = JObj [(''jsonrpc'', JStr ''2.0''),
                           (''id'', i),
                           (''error'', JObj [(''code'', JInt (- 32601)),
                                             (''message'', JStr ''Method not found'')])]\<rparr>, [])"
proof -
  from get_user_id_object [OF assms(1)] obtain user_id
    where "get_user_id (JObj kvs) = Inr user_id"
    by blast
  with assms(2-6) show ?thesis
    by (auto simp: mcp_handler_def method_not_found_def JSONResponse_def split: option.splits)
qed

theorem unknown_method_not_found_witness:
  "mcp_handler rt0 cfg0 no_files offline (JObj ping_request) =
     (Inr \<lparr>status_code = 400,
           content = JObj [(''jsonrpc'', JStr ''2.0''),
                           (''id'', JInt 3),
                           (''error'', JObj [(''code'', JInt (- 32601)),
                                             (''message'', JStr ''Method not found'')])]\<rparr>, [])"
  using unknown_method_not_found [of ping_request "JInt 3" rt0 cfg0 no_files offline]
  by (simp add: ping_request_def rt0_def json_render_not_found)

text \<open>
  Counterexample to C7 as stated, for every request: the user is resolved before the
  method is looked at, and \<open>payload.get("meta", {}).get(...)\<close> raises
  \<open>AttributeError\<close> when \<open>meta\<close> is present and not an object, here \<open>null\<close>.
\<close>

theorem unknown_method_bad_meta_raises:
  "mcp_handler rt0 cfg0 no_files offline
     (JObj [(''jsonrpc'', JStr ''2.0''), (''id'', JInt 1), (''method'', JStr ''unknown''),
            (''meta'', JNull)])
   = (Inl (AttributeError ''get''), [])"
  by (simp add: mcp_handler_def get_user_id_def)

text \<open>
  The rendering is the other way to raise: an \<open>id\<close> that is an infinite float (the
  body \<open>{"id": 1e999, "method": "ping"}\<close>) makes \<open>JSONResponse\<close> raise \<open>ValueError\<close>.
\<close>

lemma unknown_method_infinite_id_raises:
  "mcp_handler rt0 cfg0 no_files offline (JObj infinite_id_request)
   = (Inl (ValueError ''Out of range float values are not JSON compliant''), [])"
  by (simp add: mcp_handler_def get_user_id_def infinite_id_request_def method_not_found_def
      JSONResponse_def rt0_def json_render_def)

text \<open>
  Claim C10, amended. For every \<open>tools/call\<close> request object whose \<open>meta\<close> member is
  absent or is itself an object, whose \<open>params\<close> has a \<open>name\<close> that is none of the
  three tool names, and whose error response \<open>JSONResponse\<close> can render, the handler
  leaves the \<open>tools/call\<close> branch and returns what it returns for an unknown method:
  status 400, code \<open>-32601\<close>, \<open>Method not found\<close>, with the \<open>id\<close> of the request.
\<close>

theorem unknown_tool_not_found:
  assumes "map_of kvs ''meta'' = None \<or> (\<exists>m. map_of kvs ''meta'' = Some (JObj m))"
      and "map_of kvs ''method'' = Some (JStr ''tools/call'')"
      and "map_of kvs ''params'' = Some params"
      and "py_getitem params ''name'' = Inr tool"
      and "tool \<noteq> JStr ''sheets.read_range''"
      and "tool \<noteq> JStr ''sheets.write_range''"
      and "tool \<noteq> JStr ''sheets.append_row''"
      and "py_get (JObj kvs) ''id'' JNull = Inr i"
      and "render rt (JObj [(''jsonrpc'', JStr ''2.0''),
                            (''id'', i),
                            (''error'', JObj [(''code'', JInt (- 32601)),
                                              (''message'', JStr ''Method not found'')])]) = None"
  shows "mcp_handler rt cfg files remote (JObj kvs) =
     (Inr \<lparr>status_code = 400,
           content = JObj [(''jsonrpc'', JStr ''2.0''),
                           (''id'', i),
                           (''error'', JObj [(''code'', JInt (- 32601)),
                                             (''message'', JStr ''Method not found'')])]\<rparr>, [])"
proof -
  from assms(4) obtain ps where ps: "params = JObj ps"
    by (cases params) auto
  from get_user_id_object [OF assms(1)] obtain user_id
    where "get_user_id (JObj kvs) = Inr user_id"
    by blast
  with assms(2-9) show ?thesis
    unfolding ps
    by (auto simp: mcp_handler_def method_not_found_def JSONResponse_def split: option.splits)
qed

theorem unknown_tool_not_found_witness:
  "mcp_handler rt0 cfg0 alice_files accepting (JObj delete_sheet_request) =
     (Inr \<lparr>status_code = 400,
           content = JObj [(''jsonrpc'', JStr ''2.0''),
                           (''id'', JInt 4),
                           (''error'', JObj [(''code'', JInt (- 32601)),
                                             (''message'', JStr ''Method not found'')])]\<rparr>, [])"
  using unknown_tool_not_found [of delete_sheet_request
      "JObj [(''name'', JStr ''sheets.delete_sheet''),
             (''arguments'', JObj [(''spreadsheet_id'', JStr ''S1'')])]"
      "JStr ''sheets.delete_sheet''" "JInt 4" rt0 cfg0 alice_files accepting]
  by (simp add: delete_sheet_request_def rt0_def json_render_not_found)

text \<open>
  Counterexample to C10 as stated, for every such request: with a \<open>meta\<close> that is a
  string, resolving the user raises \<open>AttributeError\<close> before the tool name is read.
\<close>

theorem unknown_tool_bad_meta_raises:
  "mcp_handler rt0 cfg0 alice_files accepting
     (JObj [(''jsonrpc'', JStr ''2.0''), (''id'', JInt 4), (''method'', JStr ''tools/call''),
            (''params'', JObj [(''name'', JStr ''sheets.delete_sheet'')]),
            (''meta'', JStr ''alice'')])
   = (Inl (AttributeError ''get''), [])"
  by (simp add: mcp_handler_def get_user_id_def)

text \<open>
  Claim C1, amended. Take a \<open>tools/call\<close> request object for one of the three tools
  whose \<open>meta\<close> is absent or an object and whose \<open>arguments\<close> object has every
  argument that the tool's branch subscripts; let \<open>user_id\<close> be its user
  (\<open>meta.user_id\<close>, or \<open>default\<close>). When the token file loads as a mapping (it is
  absent, or unparsable, or holds a JSON object) and \<open>user_id in tokens\<close> is false
  (\<open>user_id\<close> is a string without a record there, or a number, a boolean or null), the
  handler returns, with status 200, the error with code 401 whose message names
  \<open>str(user_id)\<close>, the user_id itself when it is a string, and ends with the URL
  \<open>BASE_URL/auth/google?user_id=\<close> followed by it; nothing is raised and no remote is
  called.
\<close>

theorem no_record_auth_required:
  assumes "map_of kvs ''method'' = Some (JStr ''tools/call'')"
      and "get_user_id (JObj kvs) = Inr user_id"
      and "load_tokens files = Inr (JObj tokens)"
      and "py_in user_id (JObj tokens) = Inr False"
      and "map_of kvs ''params'' = Some (JObj ps)"
      and "map_of ps ''name'' = Some (JStr tool)"
      and "tool \<in> set catalogued"
      and "py_get (JObj ps) ''arguments'' (JObj []) = Inr (JObj av)"
      and "\<forall>k \<in> set (required_arguments tool). map_of av k \<noteq> None"
      and "py_get (JObj kvs) ''id'' JNull = Inr i"
  shows "mcp_handler rt cfg files remote (JObj kvs) =
     (Inr \<lparr>status_code = 200,
           content = JObj [(''jsonrpc'', JStr ''2.0''),
                           (''id'', i),
                           (''error'', JObj [
                              (''code'', JInt 401),
                              (''message'', JStr (''Google Sheets not connected for user ''
                                 @ [CHR 0x27] @ py_str (isprintable rt) user_id @ [CHR 0x27]
                                 @ ''. Visit '' @ str_opt (BASE_URL cfg)
                                 @ ''/auth/google?user_id=''
                                 @ py_str (isprintable rt) user_id))])]\<rparr>,
      [])"
proof -
  from assms(3,4) have svc: "get_sheets_service cfg files remote user_id = (Inr None, [])"
    by (simp add: get_sheets_service_def)
  have helpers:
    "sheets_read_range cfg files remote user_id a b = (Inr (JStr ''AUTH_REQUIRED''), [])"
    "sheets_write_range cfg files remote user_id a b c = (Inr (JStr ''AUTH_REQUIRED''), [])"
    "sheets_append_row cfg files remote user_id a b c = (Inr (JStr ''AUTH_REQUIRED''), [])"
    for a b c
    by (simp_all add: sheets_read_range_def sheets_write_range_def sheets_append_row_def svc)
  from assms(9) obtain sid rng where two: "map_of av ''spreadsheet_id'' = Some sid"
      "map_of av ''range'' = Some rng"
    by (auto simp: required_arguments_def split: if_splits)
  from assms(7) consider "tool = ''sheets.read_range''" | "tool = ''sheets.write_range''"
    | "tool = ''sheets.append_row''"
    by (auto simp: catalogued_def)
  then show ?thesis
  proof cases
    case 1
    with assms(1,2,5,6,8,10) two show ?thesis
      by (simp add: mcp_handler_def helpers auth_error_def split: option.splits)
  next
    case 2
    with assms(9) obtain vs where "map_of av ''values'' = Some vs"
      by (auto simp: required_arguments_def)
    with 2 assms(1,2,5,6,8,10) two show ?thesis
      by (simp add: mcp_handler_def helpers auth_error_def split: option.splits)
  next
    case 3
    with assms(9) obtain vs where "map_of av ''values'' = Some vs"
      by (auto simp: required_arguments_def)
    with 3 assms(1,2,5,6,8,10) two show ?thesis
      by (simp add: mcp_handler_def helpers auth_error_def split: option.splits)
  qed
qed

theorem no_record_auth_required_witness:
  "load_tokens alice_files = Inr (JObj [
      (''alice'', JObj [(''token'', JStr ''t0''), (''refresh_token'', JStr ''r0'')]),
      (''bob'', JObj [(''token'', JStr ''t1''), (''refresh_token'', JStr ''r1'')])])
   \<and> mcp_handler rt0 cfg0 alice_files offline (JObj carol_read_request) =
     (Inr \<lparr>status_code = 200,
           content = JObj [(''jsonrpc'', JStr ''2.0''),
                           (''id'', JInt 5),
                           (''error'', JObj [
                              (''code'', JInt 401),
                              (''message'', JStr (''Google Sheets not connected for user ''
                                 @ [CHR 0x27] @ ''carol'' @ [CHR 0x27]
                                 @ ''. Visit https://mcp.example/auth/google?user_id=carol''))])]\<rparr>,
      [])"
proof -
  have h: "load_tokens alice_files = Inr (JObj [
      (''alice'', JObj [(''token'', JStr ''t0''), (''refresh_token'', JStr ''r0'')]),
      (''bob'', JObj [(''token'', JStr ''t1''), (''refresh_token'', JStr ''r1'')])])"
    by (simp add: load_tokens_def alice_files_def)
  show ?thesis
    using h no_record_auth_required [OF _ _ h, of carol_read_request "JStr ''carol''"
        "[(''name'', JStr ''sheets.read_range''),
          (''arguments'', JObj [(''spreadsheet_id'', JStr ''S1''), (''range'', JStr ''A1:B2'')])]"
        "''sheets.read_range''"
        "[(''spreadsheet_id'', JStr ''S1''), (''range'', JStr ''A1:B2'')]" "JInt 5"
        rt0 cfg0 offline]
    by (simp add: carol_read_request_def get_user_id_def catalogued_def required_arguments_def
        cfg0_def)
qed

text \<open>
  Counterexample to C1 as stated, for every request: the arguments are subscripted
  before the helper looks the user up, so a request without them raises \<open>KeyError\<close>
  although the user has no record.
\<close>

theorem no_record_missing_argument_raises:
  "stored_record no_files ''carol'' = Inr None
   \<and> mcp_handler rt0 cfg0 no_files offline
       (JObj [(''jsonrpc'', JStr ''2.0''), (''id'', JInt 1), (''method'', JStr ''tools/call''),
              (''params'', JObj [(''name'', JStr ''sheets.read_range'')]),
              (''meta'', JObj [(''user_id'', JStr ''carol'')])])
     = (Inl (KeyError (JStr ''spreadsheet_id'')), [])"
  by (simp add: stored_record_def load_tokens_def no_files_def mcp_handler_def get_user_id_def)

text \<open>
  The other conditions of the amended C1 are needed as well. A user that is a list is
  unhashable, and the membership test on a store that is a mapping raises; a store that
  is \<open>null\<close> is not iterable; and a user that is \<open>null\<close> has no record in any mapping
  and gets the 401, its name formatted as \<open>None\<close>.
\<close>

lemma list_user_raises:
  "mcp_handler rt0 cfg0 alice_files offline (JObj zed_list_request)
   = (Inl (TypeError ''unhashable type: list''), [])"
  by (simp add: mcp_handler_def get_user_id_def zed_list_request_def sheets_read_range_def
      get_sheets_service_def load_tokens_def alice_files_def)

lemma null_store_raises:
  "mcp_handler rt0 cfg0 null_files offline (JObj carol_read_request)
   = (Inl (TypeError ''argument is not iterable''), [])"
  by (simp add: mcp_handler_def get_user_id_def carol_read_request_def sheets_read_range_def
      get_sheets_service_def load_tokens_def null_files_def)

lemma null_user_auth_required:
  "mcp_handler rt0 cfg0 alice_files offline (JObj null_user_request) =
     (Inr \<lparr>status_code = 200,
           content = JObj [(''jsonrpc'', JStr ''2.0''),
                           (''id'', JInt 9),
                           (''error'', JObj [
                              (''code'', JInt 401),
                              (''message'', JStr (''Google Sheets not connected for user ''
                                 @ [CHR 0x27] @ ''None'' @ [CHR 0x27]
                                 @ ''. Visit https://mcp.example/auth/google?user_id=None''))])]\<rparr>,
      [])"
  by (simp add: mcp_handler_def get_user_id_def null_user_request_def sheets_append_row_def
      get_sheets_service_def load_tokens_def alice_files_def auth_error_def cfg0_def)

text \<open>
  Claim C5, amended. The handler does not validate arguments. For every \<open>tools/call\<close>
  request object whose \<open>meta\<close> member is absent or is itself an object, for one of
  the three tools, whose \<open>arguments\<close> member is absent or an object and lacks an
  argument that the tool's branch subscripts, the subscript of the first one missing
  raises \<open>KeyError\<close>: no response is produced, and this happens before the credentials
  are looked up and before any remote call (whatever the disk and the remote are).
\<close>

theorem missing_argument_raises_KeyError:
  assumes "map_of kvs ''meta'' = None \<or> (\<exists>m. map_of kvs ''meta'' = Some (JObj m))"
      and "map_of kvs ''method'' = Some (JStr ''tools/call'')"
      and "map_of kvs ''params'' = Some (JObj ps)"
      and "map_of ps ''name'' = Some (JStr tool)"
      and "tool \<in> set catalogued"
      and "py_get (JObj ps) ''arguments'' (JObj []) = Inr (JObj av)"
      and "find (\<lambda>k. map_of av k = None) (required_arguments tool) = Some k"
  shows "mcp_handler rt cfg files remote (JObj kvs) = (Inl (KeyError (JStr k)), [])"
proof -
  from get_user_id_object [OF assms(1)] obtain user_id
    where user: "get_user_id (JObj kvs) = Inr user_id"
    by blast
  from assms(5) consider "tool = ''sheets.read_range''" | "tool = ''sheets.write_range''"
    | "tool = ''sheets.append_row''"
    by (auto simp: catalogued_def)
  then show ?thesis
  proof cases
    case 1
    with assms(2,3,4,6,7) user show ?thesis
      by (auto simp: mcp_handler_def required_arguments_def split: option.splits if_splits)
  next
    case 2
    with assms(2,3,4,6,7) user show ?thesis
      by (auto simp: mcp_handler_def required_arguments_def split: option.splits if_splits)
  next
    case 3
    with assms(2,3,4,6,7) user show ?thesis
      by (auto simp: mcp_handler_def required_arguments_def split: option.splits if_splits)
  qed
qed

theorem missing_argument_raises_KeyError_witness:
  "mcp_handler rt0 cfg0 alice_files accepting (JObj bob_append_request)
   = (Inl (KeyError (JStr ''range'')), [])"
  using missing_argument_raises_KeyError [of bob_append_request
      "[(''name'', JStr ''sheets.append_row''),
        (''arguments'', JObj [(''spreadsheet_id'', JStr ''S1''), (''values'', JArr [JStr ''x''])])]"
      "''sheets.append_row''"
      "[(''spreadsheet_id'', JStr ''S1''), (''values'', JArr [JStr ''x''])]" "''range''"
      rt0 cfg0 alice_files accepting]
  by (simp add: bob_append_request_def catalogued_def required_arguments_def)

text \<open>
  Counterexample to C5 as stated: a \<open>write_range\<close> without \<open>values\<close>, from a user
  with stored credentials, gets no structured error; the \<open>KeyError\<close> leaves the
  handler.
\<close>

theorem write_range_without_values_raises:
  "mcp_handler rt0 cfg0 alice_files accepting
     (JObj [(''jsonrpc'', JStr ''2.0''), (''id'', JInt 2), (''method'', JStr ''tools/call''),
            (''params'', JObj [(''name'', JStr ''sheets.write_range''),
                               (''arguments'', JObj [(''spreadsheet_id'', JStr ''S1''),
                                                     (''range'', JStr ''A1:B2'')])]),
            (''meta'', JObj [(''user_id'', JStr ''alice'')])])
   = (Inl (KeyError (JStr ''values'')), [])"
  by (simp add: mcp_handler_def get_user_id_def)

text \<open>
  Claim C8. For a user \<open>u\<close> whose stored record has a token and a refresh token, and a
  client library that builds the service and executes the update, the \<open>tools/call\<close>
  of \<open>sheets.write_range\<close> with spreadsheet \<open>S1\<close>, range \<open>A1:B2\<close> and values
  \<open>[["x","y"],["1","2"]]\<close> makes exactly two calls to the library: building the service
  from the stored credentials, and one \<open>update\<close> with that spreadsheet, that range,
  \<open>valueInputOption\<close> \<open>RAW\<close> and those values as the body. The response is the success
  envelope with the \<open>id\<close> of the request.
\<close>

theorem write_range_scenario:
  assumes "stored_record files u = Inr (Some record)"
      and "py_getitem record ''token'' = Inr tok"
      and "py_getitem record ''refresh_token'' = Inr rtok"
      and "creds = \<lparr>token = tok, refresh_token = rtok,
                    token_uri = ''https://oauth2.googleapis.com/token'',
                    client_id = GOOGLE_CLIENT_ID cfg,
                    client_secret = GOOGLE_CLIENT_SECRET cfg,
                    scopes = SCOPES\<rparr>"
      and "update = Values_update creds (JStr ''S1'') (JStr ''A1:B2'') ''RAW''
             (JObj [(''values'', JArr [JArr [JStr ''x'', JStr ''y''],
                                       JArr [JStr ''1'', JStr ''2'']])])"
      and "remote (Build creds) = Inr built"
      and "remote update = Inr reply"
  shows "mcp_handler rt cfg files remote (write_range_request rid u) =
     (Inr \<lparr>status_code = 200,
           content = JObj [(''jsonrpc'', JStr ''2.0''),
                           (''id'', rid),
                           (''result'', JObj [
                              (''content'', JArr [
                                 JObj [(''type'', JStr ''text''),
                                       (''text'', JStr sheet_updated_text)]])])]\<rparr>,
      [Build creds, update])"
proof -
  from stored_record_SomeD [OF assms(1)] obtain tokens
    where "load_tokens files = Inr (JObj tokens)" "map_of tokens u = Some record"
    by blast
  with assms(2-7) have svc:
    "get_sheets_service cfg files remote (JStr u) = (Inr (Some (Service creds)), [Build creds])"
    by (simp add: get_sheets_service_def Let_def)
  have "sheets_write_range cfg files remote (JStr u) (JStr ''S1'') (JStr ''A1:B2'')
          (JArr [JArr [JStr ''x'', JStr ''y''], JArr [JStr ''1'', JStr ''2'']])
        = (Inr (JStr ''UPDATED''), [Build creds, update])"
    using assms(5,7) by (simp add: sheets_write_range_def svc Let_def)
  then show ?thesis
    by (simp add: mcp_handler_def write_range_request_def get_user_id_def)
qed

theorem write_range_scenario_witness:
  "stored_record alice_files ''alice''
     = Inr (Some (JObj [(''token'', JStr ''t0''), (''refresh_token'', JStr ''r0'')]))
   \<and> mcp_handler rt0 cfg0 alice_files accepting (write_range_request (JInt 7) ''alice'') =
     (Inr \<lparr>status_code = 200,
           content = JObj [(''jsonrpc'', JStr ''2.0''),
                           (''id'', JInt 7),
                           (''result'', JObj [
                              (''content'', JArr [
                                 JObj [(''type'', JStr ''text''),
                                       (''text'', JStr sheet_updated_text)]])])]\<rparr>,
      [Build alice_creds,
       Values_update alice_creds (JStr ''S1'') (JStr ''A1:B2'') ''RAW''
         (JObj [(''values'', JArr [JArr [JStr ''x'', JStr ''y''],
                                   JArr [JStr ''1'', JStr ''2'']])])])"
proof -
  have h: "stored_record alice_files ''alice''
     = Inr (Some (JObj [(''token'', JStr ''t0''), (''refresh_token'', JStr ''r0'')]))"
    by (simp add: stored_record_def load_tokens_def alice_files_def)
  show ?thesis
    using h write_range_scenario [OF h, of "JStr ''t0''" "JStr ''r0''" alice_creds cfg0
        "Values_update alice_creds (JStr ''S1'') (JStr ''A1:B2'') ''RAW''
           (JObj [(''values'', JArr [JArr [JStr ''x'', JStr ''y''],
                                     JArr [JStr ''1'', JStr ''2'']])])"
        accepting "JObj []" "JObj []" rt0 "JInt 7"]
    by (simp add: alice_creds_def cfg0_def accepting_def)
qed

end
